theory Spec2Isabelle
  imports Main
begin

section \<open>The browser environment of src/index.ts\<close>

text \<open>
  The watcher is an event-driven browser program: module variables, a handful of
  listeners and timers, and asynchronous HEAD requests. The embedding keeps the module
  variables and the part of the \<open>window\<close> object the code touches in one record and
  turns every call-back of the source into a function on that record. Console output,
  requests, user call-backs and dialogs are appended to the field \<open>trace\<close>, so that
  "a notification fired" and "a probe was issued" are statements about that list.

  Three things are taken from the environment as they are usually found: a \<open>RegExp\<close>
  given as \<open>ignorePaths\<close> has no \<open>g\<close> or \<open>y\<close> flag, so that \<open>test\<close> depends on its
  argument only; a user call-back returns normally; and \<open>window.location.reload()\<close> is
  recorded in the trace, what the page does after it is not followed. The Vue plug-in
  object of lines 280-299 only calls \<open>setupVersionWatcher\<close> and is not modelled.
\<close>

text \<open>The console messages of the source, by the place that prints them.\<close>

datatype log_msg =
    MsgDisabled
  | MsgAlreadyExists
  | MsgEnabled
  | MsgIgnoreCurrentPath
  | MsgIgnoreNavigation
  | MsgAssetFailed string
  | MsgDestroyed
  | MsgETagFailed
  | MsgVersionChanged "string option" string
  | MsgCheckFailed
  | MsgReloadCancelled

datatype dialog_kind = ElMessageBoxConfirm | NativeConfirm

datatype effect =
    ConsoleLog log_msg
  | ConsoleWarn log_msg
  | FetchHead string
  | Call_onUpdateDetected nat
  | Call_showUpdateDialog
  | DialogPresented dialog_kind
  | Call_ElMessage
  | Reload

text \<open>
  What \<open>await fetch(url, {method: "HEAD"})\<close> can produce: a rejection, or a response with
  its \<open>ok\<close> flag and the two headers the code reads (\<open>headers.get\<close> gives \<open>null\<close> for
  an absent header).
\<close>

datatype fetch_result =
    NetworkError
  | Response bool "string option" "string option"

datatype exn = FetchRejected | HttpError

text \<open>A \<open>RegExp\<close> is used only through \<open>test\<close>; it is taken as a predicate on paths.\<close>

type_synonym regexp = "string \<Rightarrow> bool"

text \<open>\<open>VersionWatcherOptions\<close>: every field is optional; user call-backs are named by a number.\<close>

record options =
  enabled :: "bool option"
  checkInterval :: "int option"
  checkPath :: "string option"
  silent :: "bool option"
  onUpdateDetected :: "nat option"
  ignorePaths :: "regexp option"

text \<open>
  The variables an arrow function of \<open>setupVersionWatcher\<close> closes over, after the
  defaults of the destructuring have been applied.
\<close>

record closure =
  c_checkPath :: string
  c_silent :: bool
  c_onUpdateDetected :: "nat option"
  c_ignorePaths :: "regexp option"

text \<open>
  One call of \<open>setupErrorMonitoring\<close>: its three parameters, its local \<open>errorCount\<close>
  and the \<open>timer\<close> variable of the \<open>debounce\<close> closure behind \<open>checkError\<close>.
\<close>

record monitor =
  m_checkPath :: string
  m_silent :: bool
  m_onUpdateDetected :: "nat option"
  errorCount :: nat
  m_timer :: "nat option"

text \<open>The target of an \<open>error\<close> event, as far as the listener reads it.\<close>

record target =
  tagName :: string
  src :: "string option"
  href :: "string option"

text \<open>
  The value of \<open>history.pushState\<close> (or \<open>replaceState\<close>): the browser's own function, or
  the wrapper installed by \<open>hookHistoryChange\<close>, which holds the original it calls and
  the call-back it runs afterwards.
\<close>

datatype hist_fn = Native | Wrapped hist_fn closure

text \<open>What a pending timer runs, and where an in-flight request continues.\<close>

datatype task = CheckError nat | ShowDialog bool

datatype timer = Interval int closure | Timeout nat task

datatype kont = KHandler bool "nat option" | KCorrelator nat

record state =
  sysVersion :: "string option"
  checkTimer :: "nat option"
  isInitialized :: bool
  origin :: string
  pathname :: string
  now :: nat
  last_handle :: nat
  timers :: "(nat \<times> timer) list"
  pushState :: hist_fn
  replaceState :: hist_fn
  ORIGINAL_PUSH_STATE :: "hist_fn option"
  ORIGINAL_REPLACE_STATE :: "hist_fn option"
  popstate_listeners :: "closure list"
  error_listeners :: "monitor list"
  fetches :: "(nat \<times> string \<times> kont) list"
  next_fetch :: nat
  hasElMessageBox :: bool
  hasElMessage :: bool
  trace :: "effect list"

text \<open>A freshly loaded page: the initial values of the module variables (lines 35-37).\<close>

definition fresh_page :: "string \<Rightarrow> string \<Rightarrow> bool \<Rightarrow> bool \<Rightarrow> state" where
  "fresh_page org path box msg =
     \<lparr> sysVersion = None, checkTimer = None, isInitialized = False,
       origin = org, pathname = path, now = 0, last_handle = 0, timers = [],
       pushState = Native, replaceState = Native,
       ORIGINAL_PUSH_STATE = None, ORIGINAL_REPLACE_STATE = None,
       popstate_listeners = [], error_listeners = [],
       fetches = [], next_fetch = 0,
       hasElMessageBox = box, hasElMessage = msg, trace = [] \<rparr>"

subsection \<open>JavaScript truthiness and the primitives of the window\<close>

text \<open>A \<open>string | null\<close> is falsy when it is \<open>null\<close> or the empty string.\<close>

definition truthy :: "string option \<Rightarrow> bool" where
  "truthy v = (case v of None \<Rightarrow> False | Some x \<Rightarrow> x \<noteq> [])"

text \<open>\<open>a || b\<close> on two such values.\<close>

definition or_else :: "string option \<Rightarrow> string option \<Rightarrow> string option" where
  "or_else a b = (if truthy a then a else b)"

text \<open>\<open>a || ""\<close>.\<close>

definition or_empty :: "string option \<Rightarrow> string" where
  "or_empty a = (case a of None \<Rightarrow> [] | Some x \<Rightarrow> x)"

text \<open>A timer handle is a number; \<open>if (checkTimer)\<close> is false for \<open>null\<close> and for 0.\<close>

definition truthy_num :: "nat option \<Rightarrow> bool" where
  "truthy_num v = (case v of None \<Rightarrow> False | Some n \<Rightarrow> n \<noteq> 0)"

definition startsWith :: "string \<Rightarrow> string \<Rightarrow> bool" where
  "startsWith u p = (take (length p) u = p)"

definition emit :: "effect \<Rightarrow> state \<Rightarrow> state" where
  "emit e s = s\<lparr>trace := trace s @ [e]\<rparr>"

text \<open>\<open>!silent && console.log(...)\<close> and \<open>!silent && console.warn(...)\<close>.\<close>

definition unless_silent :: "bool \<Rightarrow> effect \<Rightarrow> state \<Rightarrow> state" where
  "unless_silent quiet e s = (if quiet then s else emit e s)"

text \<open>
  \<open>setTimeout\<close> and \<open>setInterval\<close> draw their handles from one pool of positive numbers;
  \<open>clearTimeout\<close> and \<open>clearInterval\<close> remove the timer with that handle, if any, and do
  nothing for \<open>undefined\<close>.
\<close>

definition add_timer :: "timer \<Rightarrow> state \<Rightarrow> nat \<times> state" where
  "add_timer tm s =
     (Suc (last_handle s),
      s\<lparr>last_handle := Suc (last_handle s),
        timers := timers s @ [(Suc (last_handle s), tm)]\<rparr>)"

definition setTimeout :: "task \<Rightarrow> nat \<Rightarrow> state \<Rightarrow> nat \<times> state" where
  "setTimeout tk delay s = add_timer (Timeout (now s + delay) tk) s"

definition setInterval :: "closure \<Rightarrow> int \<Rightarrow> state \<Rightarrow> nat \<times> state" where
  "setInterval cl period s = add_timer (Interval period cl) s"

definition clearTimer :: "nat option \<Rightarrow> state \<Rightarrow> state" where
  "clearTimer h s =
     (case h of None \<Rightarrow> s
      | Some n \<Rightarrow> s\<lparr>timers := filter (\<lambda>p. fst p \<noteq> n) (timers s)\<rparr>)"

section \<open>The functions of src/index.ts\<close>

subsection \<open>debounce (lines 271-277)\<close>

text \<open>
  A call of the function returned by \<open>debounce(fn, delay)\<close>: it clears the timer held in
  the closure's variable and stores a new one. The variable is passed in and its new
  value returned.
\<close>

definition debounce_call :: "nat option \<Rightarrow> task \<Rightarrow> nat \<Rightarrow> state \<Rightarrow> nat option \<times> state" where
  "debounce_call cell tk delay s =
     (let (h, s') = setTimeout tk delay (clearTimer cell s) in (Some h, s'))"

subsection \<open>showUpdateDialog (lines 217-242)\<close>

text \<open>
  Every call builds its own debounced function, whose timer variable starts
  \<open>undefined\<close>, and calls it once.
\<close>

definition showUpdateDialog :: "bool \<Rightarrow> state \<Rightarrow> state" where
  "showUpdateDialog quiet s =
     snd (debounce_call None (ShowDialog quiet) 500 (emit Call_showUpdateDialog s))"

text \<open>The debounced body; \<open>accept\<close> is the user's answer to the dialog.\<close>

definition showDialog :: "bool \<Rightarrow> bool \<Rightarrow> state \<Rightarrow> state" where
  "showDialog quiet accept s =
     (if hasElMessageBox s then
        (let s1 = emit (DialogPresented ElMessageBoxConfirm) s in
         if accept then emit Reload s1
         else if hasElMessage s then emit Call_ElMessage s1 else s1)
      else
        (let s1 = emit (DialogPresented NativeConfirm) s in
         if accept then emit Reload s1
         else unless_silent quiet (ConsoleLog MsgReloadCancelled) s1))"

subsection \<open>getETag (lines 173-187)\<close>

text \<open>
  The request is sent, and the function continues when it settles: \<open>getETag_start\<close> is
  the part before the \<open>await\<close>, \<open>getETag_try\<close> the rest of the \<open>try\<close> block and
  \<open>getETag_finish\<close> the whole continuation with its \<open>catch\<close>. The result is a sum so
  that an exception leaving the function would be the value \<open>Inl\<close>.
\<close>

definition getETag_start :: "string \<Rightarrow> kont \<Rightarrow> state \<Rightarrow> state" where
  "getETag_start url k s =
     (emit (FetchHead url) s)
       \<lparr>fetches := fetches s @ [(next_fetch s, url, k)], next_fetch := Suc (next_fetch s)\<rparr>"

definition getETag_try :: "fetch_result \<Rightarrow> exn + string" where
  "getETag_try r =
     (case r of
        NetworkError \<Rightarrow> Inl FetchRejected
      | Response ok etag lastmod \<Rightarrow>
          if \<not> ok then Inl HttpError
          else Inr (or_empty (or_else (or_else etag lastmod) (Some []))))"

definition getETag_finish :: "bool \<Rightarrow> fetch_result \<Rightarrow> state \<Rightarrow> (exn + string) \<times> state" where
  "getETag_finish quiet r s =
     (case getETag_try r of
        Inl e \<Rightarrow> (Inr [], unless_silent quiet (ConsoleWarn MsgETagFailed) s)
      | Inr v \<Rightarrow> (Inr v, s))"

subsection \<open>versionUpdateHandler (lines 189-214)\<close>

definition notify :: "bool \<Rightarrow> nat option \<Rightarrow> state \<Rightarrow> state" where
  "notify quiet cb s =
     (case cb of Some f \<Rightarrow> emit (Call_onUpdateDetected f) s
      | None \<Rightarrow> showUpdateDialog quiet s)"

definition versionUpdateHandler :: "string \<Rightarrow> bool \<Rightarrow> nat option \<Rightarrow> state \<Rightarrow> state" where
  "versionUpdateHandler path quiet cb s = getETag_start path (KHandler quiet cb) s"

text \<open>The code after \<open>await getETag\<close>, with the outer \<open>catch\<close> for a rejected promise.\<close>

definition versionUpdateHandler_resume ::
  "bool \<Rightarrow> nat option \<Rightarrow> exn + string \<Rightarrow> state \<Rightarrow> state" where
  "versionUpdateHandler_resume quiet cb res s =
     (case res of
        Inl e \<Rightarrow> unless_silent quiet (ConsoleWarn MsgCheckFailed) s
      | Inr newVersion \<Rightarrow>
          if \<not> truthy (sysVersion s) then s\<lparr>sysVersion := Some newVersion\<rparr>
          else if sysVersion s \<noteq> Some newVersion then
            notify quiet cb
              (unless_silent quiet
                 (ConsoleLog (MsgVersionChanged (sysVersion s) newVersion)) s)
          else s)"

subsection \<open>setupErrorMonitoring (lines 104-148)\<close>

definition set_errorCount :: "nat \<Rightarrow> nat \<Rightarrow> state \<Rightarrow> state" where
  "set_errorCount i n s =
     (if i < length (error_listeners s)
      then s\<lparr>error_listeners := (error_listeners s)[i := (error_listeners s ! i)\<lparr>errorCount := n\<rparr>]\<rparr>
      else s)"

text \<open>The debounced body of \<open>checkError\<close> of monitor \<open>i\<close>, up to its \<open>await\<close>.\<close>

definition checkError :: "nat \<Rightarrow> state \<Rightarrow> state" where
  "checkError i s =
     (if i < length (error_listeners s) then
        (if errorCount (error_listeners s ! i) > 1
         then getETag_start (m_checkPath (error_listeners s ! i)) (KCorrelator i) s
         else set_errorCount i 0 s)
      else s)"

text \<open>
  The rest of that body, once \<open>getETag\<close> has returned. Were \<open>getETag\<close> to throw, the
  body would end there, before \<open>errorCount = 0\<close>.
\<close>

definition checkError_resume :: "nat \<Rightarrow> exn + string \<Rightarrow> state \<Rightarrow> state" where
  "checkError_resume i res s =
     (if i < length (error_listeners s) then
        (case res of
           Inl e \<Rightarrow> s
         | Inr newVersion \<Rightarrow>
             set_errorCount i 0
               (if truthy (sysVersion s) \<and> newVersion \<noteq> [] \<and> sysVersion s \<noteq> Some newVersion
                then notify (m_silent (error_listeners s ! i))
                       (m_onUpdateDetected (error_listeners s ! i)) s
                else s))
      else s)"

text \<open>The \<open>error\<close> listener of monitor \<open>i\<close> (lines 126-145).\<close>

definition onError :: "nat \<Rightarrow> target option \<Rightarrow> state \<Rightarrow> state" where
  "onError i tg s =
     (if i < length (error_listeners s) then
        (case tg of
           None \<Rightarrow> s
         | Some t \<Rightarrow>
             (case or_else (src t) (href t) of
                None \<Rightarrow> s
              | Some url \<Rightarrow>
                  if url = [] then s
                  else if \<not> startsWith url (origin s) then s
                  else if tagName t = ''SCRIPT'' \<or> tagName t = ''LINK'' then
                    (let m = error_listeners s ! i;
                         s1 = unless_silent (m_silent m) (ConsoleWarn (MsgAssetFailed url)) s;
                         s2 = set_errorCount i (Suc (errorCount m)) s1;
                         (cell, s3) = debounce_call (m_timer m) (CheckError i) 1000 s2
                     in s3\<lparr>error_listeners :=
                            (error_listeners s3)[i := (error_listeners s3 ! i)\<lparr>m_timer := cell\<rparr>]\<rparr>)
                  else s))
      else s)"

definition setupErrorMonitoring :: "string \<Rightarrow> bool \<Rightarrow> nat option \<Rightarrow> state \<Rightarrow> state" where
  "setupErrorMonitoring path quiet cb s =
     s\<lparr>error_listeners := error_listeners s @
          [\<lparr>m_checkPath = path, m_silent = quiet, m_onUpdateDetected = cb,
            errorCount = 0, m_timer = None\<rparr>]\<rparr>"

subsection \<open>hookHistoryChange (lines 245-268) and the navigation call-back\<close>

text \<open>\<open>ignorePaths && ignorePaths.test(window.location.pathname)\<close> (lines 64, 79 and 88).\<close>

definition ignored :: "regexp option \<Rightarrow> string \<Rightarrow> bool" where
  "ignored re path = (case re of None \<Rightarrow> False | Some t \<Rightarrow> t path)"

text \<open>The arrow function of lines 77-85, which is also the \<open>popstate\<close> listener of lines 86-94.\<close>

definition onNavigate :: "closure \<Rightarrow> state \<Rightarrow> state" where
  "onNavigate cl s =
     (if ignored (c_ignorePaths cl) (pathname s)
      then unless_silent (c_silent cl) (ConsoleLog MsgIgnoreNavigation) s
      else versionUpdateHandler (c_checkPath cl) (c_silent cl) (c_onUpdateDetected cl) s)"

definition hookHistoryChange :: "closure \<Rightarrow> state \<Rightarrow> state" where
  "hookHistoryChange cl s =
     (let s1 = (if ORIGINAL_PUSH_STATE s = None
                then s\<lparr>ORIGINAL_PUSH_STATE := Some (pushState s)\<rparr> else s);
          s2 = (if ORIGINAL_REPLACE_STATE s1 = None
                then s1\<lparr>ORIGINAL_REPLACE_STATE := Some (replaceState s1)\<rparr> else s1)
      in s2\<lparr>pushState :=
              (case ORIGINAL_PUSH_STATE s2 of Some f \<Rightarrow> Wrapped f cl | None \<Rightarrow> pushState s2),
            replaceState :=
              (case ORIGINAL_REPLACE_STATE s2 of Some f \<Rightarrow> Wrapped f cl
               | None \<Rightarrow> replaceState s2)\<rparr>)"

text \<open>Calling \<open>history.pushState\<close> or \<open>history.replaceState\<close> with a new path.\<close>

fun call_history :: "hist_fn \<Rightarrow> string \<Rightarrow> state \<Rightarrow> state" where
  "call_history Native path s = s\<lparr>pathname := path\<rparr>"
| "call_history (Wrapped original cl) path s = onNavigate cl (call_history original path s)"

subsection \<open>setupVersionWatcher (lines 40-101)\<close>

text \<open>The default of a destructured option: \<open>const {enabled = true, ...} = options\<close>.\<close>

definition default :: "'a \<Rightarrow> 'a option \<Rightarrow> 'a" where
  "default d v = (case v of None \<Rightarrow> d | Some x \<Rightarrow> x)"

definition setupVersionWatcher :: "options \<Rightarrow> state \<Rightarrow> state" where
  "setupVersionWatcher opts s =
     (let on = default True (enabled opts);
          period = default 0 (checkInterval opts);
          path = default (origin s @ ''/'') (checkPath opts);
          quiet = default False (silent opts);
          cb = onUpdateDetected opts;
          cl = \<lparr>c_checkPath = path, c_silent = quiet, c_onUpdateDetected = cb,
                c_ignorePaths = ignorePaths opts\<rparr>
      in
      if \<not> on then unless_silent quiet (ConsoleLog MsgDisabled) s
      else if isInitialized s then unless_silent quiet (ConsoleWarn MsgAlreadyExists) s
      else
        (let s1 = unless_silent quiet (ConsoleLog MsgEnabled) (s\<lparr>isInitialized := True\<rparr>) in
         if ignored (ignorePaths opts) (pathname s1)
         then unless_silent quiet (ConsoleLog MsgIgnoreCurrentPath) s1
         else
           (let s2 = (if period > 0
                      then (let (h, s') = setInterval cl period s1 in s'\<lparr>checkTimer := Some h\<rparr>)
                      else s1);
                s3 = hookHistoryChange cl s2;
                s4 = s3\<lparr>popstate_listeners := popstate_listeners s3 @ [cl]\<rparr>;
                s5 = setupErrorMonitoring path quiet cb s4
            in versionUpdateHandler path quiet cb s5)))"

subsection \<open>destroyVersionWatcher (lines 151-166)\<close>

definition destroyVersionWatcher :: "state \<Rightarrow> state" where
  "destroyVersionWatcher s =
     (let s1 = (if truthy_num (checkTimer s)
                then (clearTimer (checkTimer s) s)\<lparr>checkTimer := None\<rparr> else s);
          s2 = s1\<lparr>isInitialized := False\<rparr>;
          s3 = (case ORIGINAL_PUSH_STATE s2 of Some f \<Rightarrow> s2\<lparr>pushState := f\<rparr> | None \<Rightarrow> s2);
          s4 = (case ORIGINAL_REPLACE_STATE s3 of Some f \<Rightarrow> s3\<lparr>replaceState := f\<rparr>
                | None \<Rightarrow> s3)
      in emit (ConsoleLog MsgDestroyed) s4)"

section \<open>The event loop\<close>

text \<open>
  What can happen to the page: the two exported functions are called, the application
  or the user navigates, an asset fails to load, time passes, a timer fires (for a
  time-out only once it is due; the flag is the user's answer should a dialog open),
  or a request settles.
\<close>

datatype event =
    Setup options
  | Destroy
  | PushState string
  | ReplaceState string
  | PopState string
  | AssetError "target option"
  | Advance nat
  | TimerFires nat bool
  | FetchDone nat fetch_result

definition run_task :: "task \<Rightarrow> bool \<Rightarrow> state \<Rightarrow> state" where
  "run_task tk accept s =
     (case tk of CheckError i \<Rightarrow> checkError i s | ShowDialog quiet \<Rightarrow> showDialog quiet accept s)"

definition timer_fires :: "nat \<Rightarrow> bool \<Rightarrow> state \<Rightarrow> state" where
  "timer_fires h accept s =
     (case map_of (timers s) h of
        None \<Rightarrow> s
      | Some (Interval period cl) \<Rightarrow>
          versionUpdateHandler (c_checkPath cl) (c_silent cl) (c_onUpdateDetected cl) s
      | Some (Timeout due tk) \<Rightarrow>
          if due \<le> now s then run_task tk accept (clearTimer (Some h) s) else s)"

definition fetch_done :: "nat \<Rightarrow> fetch_result \<Rightarrow> state \<Rightarrow> state" where
  "fetch_done n r s =
     (case map_of (fetches s) n of
        None \<Rightarrow> s
      | Some (url, k) \<Rightarrow>
          (let s1 = s\<lparr>fetches := filter (\<lambda>p. fst p \<noteq> n) (fetches s)\<rparr> in
           case k of
             KHandler quiet cb \<Rightarrow>
               (let (res, s2) = getETag_finish quiet r s1
                in versionUpdateHandler_resume quiet cb res s2)
           | KCorrelator i \<Rightarrow>
               (if i < length (error_listeners s1) then
                  (let (res, s2) = getETag_finish (m_silent (error_listeners s1 ! i)) r s1
                   in checkError_resume i res s2)
                else s1)))"

definition dispatch_error :: "target option \<Rightarrow> state \<Rightarrow> state" where
  "dispatch_error tg s = fold (\<lambda>i. onError i tg) [0..<length (error_listeners s)] s"

definition dispatch_popstate :: "string \<Rightarrow> state \<Rightarrow> state" where
  "dispatch_popstate path s = fold onNavigate (popstate_listeners s) (s\<lparr>pathname := path\<rparr>)"

fun step :: "event \<Rightarrow> state \<Rightarrow> state" where
  "step (Setup opts) s = setupVersionWatcher opts s"
| "step Destroy s = destroyVersionWatcher s"
| "step (PushState path) s = call_history (pushState s) path s"
| "step (ReplaceState path) s = call_history (replaceState s) path s"
| "step (PopState path) s = dispatch_popstate path s"
| "step (AssetError tg) s = dispatch_error tg s"
| "step (Advance d) s = s\<lparr>now := now s + d\<rparr>"
| "step (TimerFires h accept) s = timer_fires h accept s"
| "step (FetchDone n r) s = fetch_done n r s"

definition run :: "event list \<Rightarrow> state \<Rightarrow> state" where
  "run evs s = fold step evs s"

text \<open>A notification is a call of the user's call-back or of the default flow.\<close>

fun is_notification :: "effect \<Rightarrow> bool" where
  "is_notification (Call_onUpdateDetected f) = True"
| "is_notification Call_showUpdateDialog = True"
| "is_notification e = False"

definition notifications :: "state \<Rightarrow> nat" where
  "notifications s = length (filter is_notification (trace s))"

fun is_fetch :: "effect \<Rightarrow> bool" where
  "is_fetch (FetchHead u) = True"
| "is_fetch e = False"

definition probes :: "state \<Rightarrow> nat" where
  "probes s = length (filter is_fetch (trace s))"

fun is_dialog :: "effect \<Rightarrow> bool" where
  "is_dialog (DialogPresented k) = True"
| "is_dialog e = False"

definition dialogs :: "state \<Rightarrow> nat" where
  "dialogs s = length (filter is_dialog (trace s))"

section \<open>Notions used to state the properties\<close>

text \<open>The fingerprint a settled request yields: the value \<open>getETag\<close> returns for it.\<close>

definition fingerprint :: "fetch_result \<Rightarrow> string" where
  "fingerprint r = (case getETag_try r of Inl e \<Rightarrow> [] | Inr v \<Rightarrow> v)"

text \<open>
  One evaluation that nothing interleaves with: \<open>versionUpdateHandler\<close> sends its
  request, which then settles with \<open>r\<close>.
\<close>

definition evaluate :: "string \<Rightarrow> bool \<Rightarrow> nat option \<Rightarrow> fetch_result \<Rightarrow> state \<Rightarrow> state" where
  "evaluate path quiet cb r s = fetch_done (next_fetch s) r (versionUpdateHandler path quiet cb s)"

text \<open>Request numbers in flight are below the next one to be given out.\<close>

definition fresh_ids :: "state \<Rightarrow> bool" where
  "fresh_ids s = list_all (\<lambda>p. fst p < next_fetch s) (fetches s)"

text \<open>The closure that a call of \<open>setupVersionWatcher\<close> builds from its options.\<close>

definition setup_closure :: "options \<Rightarrow> state \<Rightarrow> closure" where
  "setup_closure opts s =
     \<lparr>c_checkPath = default (origin s @ ''/'') (checkPath opts),
      c_silent = default False (silent opts),
      c_onUpdateDetected = onUpdateDetected opts,
      c_ignorePaths = ignorePaths opts\<rparr>"

text \<open>A page on which nothing of the watcher is installed and nothing is in flight.\<close>

definition inert :: "state \<Rightarrow> bool" where
  "inert s = (isInitialized s \<and> timers s = [] \<and> popstate_listeners s = [] \<and>
              error_listeners s = [] \<and> pushState s = Native \<and> replaceState s = Native \<and>
              fetches s = [] \<and> probes s = 0 \<and> checkTimer s = None)"

fun is_destroy :: "event \<Rightarrow> bool" where
  "is_destroy Destroy = True"
| "is_destroy e = False"

text \<open>
  The origin of an absolute URL as the specification's glossary has it (scheme, host and
  port): the text up to the end of the authority. It is not part of the source, which
  compares by \<open>startsWith\<close>; it serves to say that a URL is cross-origin.
\<close>

fun authority :: "string \<Rightarrow> string" where
  "authority [] = []"
| "authority (c # cs) =
     (if c = CHR ''/'' \<or> c = CHR ''?'' \<or> c = CHR ''#'' then [] else c # authority cs)"

fun origin_of_url :: "string \<Rightarrow> string" where
  "origin_of_url (a # b # c # rest) =
     (if a = CHR '':'' \<and> b = CHR ''/'' \<and> c = CHR ''/''
      then a # b # c # authority rest
      else a # origin_of_url (b # c # rest))"
| "origin_of_url cs = cs"

subsection \<open>Concrete pages, options and responses\<close>

definition page :: state where
  "page = fresh_page ''https://a.com'' ''/'' False False"

definition with_callback :: options where
  "with_callback = \<lparr>enabled = None, checkInterval = None, checkPath = None, silent = None,
                     onUpdateDetected = Some 7, ignorePaths = None\<rparr>"

definition with_dialog :: options where
  "with_dialog = \<lparr>enabled = None, checkInterval = None, checkPath = None, silent = None,
                   onUpdateDetected = None, ignorePaths = None\<rparr>"

definition with_interval :: options where
  "with_interval = \<lparr>enabled = None, checkInterval = Some 30000, checkPath = None,
                     silent = None, onUpdateDetected = Some 7, ignorePaths = None\<rparr>"

definition ignoring_root :: options where
  "ignoring_root = \<lparr>enabled = None, checkInterval = Some 30000, checkPath = None,
                     silent = None, onUpdateDetected = Some 7,
                     ignorePaths = Some (\<lambda>p. p = ''/'')\<rparr>"

definition served :: "string \<Rightarrow> fetch_result" where
  "served v = Response True (Some v) None"

definition failed_script :: "string \<Rightarrow> target option" where
  "failed_script url = Some \<lparr>tagName = ''SCRIPT'', src = Some url, href = None\<rparr>"

text \<open>A page that was set up with a 30 s interval and whose first probe returned \<open>v1\<close>.\<close>

definition armed :: state where
  "armed = run [Setup with_interval, FetchDone 0 (served ''v1'')] page"

text \<open>Things that happen on a page after its load: none of them is a teardown.\<close>

definition quiet_load :: "event list" where
  "quiet_load =
     [PushState ''/a'', PopState ''/'', AssetError (failed_script ''https://a.com/x.js''),
      AssetError (failed_script ''https://a.com/x.js''), Advance 60000, TimerFires 1 False,
      Setup with_interval]"





text \<open>The page \<open>armed\<close> after its teardown.\<close>

definition torn :: state where
  "torn = destroyVersionWatcher armed"

text \<open>
  A script and a stylesheet of the page's own origin fail to load; a second later the
  debounce timer of the correlator fires.
\<close>

definition two_failures :: "event list" where
  "two_failures =
     [AssetError (failed_script ''https://a.com/app.js''),
      AssetError (Some \<lparr>tagName = ''LINK'', src = None, href = Some ''https://a.com/app.css''\<rparr>),
      Advance 1000, TimerFires 3 False]"

text \<open>
  A page without a user call-back whose baseline is \<open>v1\<close>, and two navigations 100 ms
  apart after the server has moved to \<open>v2\<close>.
\<close>

definition armed_dialog :: state where
  "armed_dialog = run [Setup with_dialog, FetchDone 0 (served ''v1'')] page"

definition burst :: "event list" where
  "burst = [PushState ''/a'', FetchDone 1 (served ''v2''), Advance 100,
            PushState ''/b'', FetchDone 2 (served ''v2'')]"




text \<open>
  What holds of every state a page can reach: request numbers are fresh, the handle in
  \<open>checkTimer\<close> is positive, the captured history functions are the browser's own,
  \<open>checkTimer\<close> is \<open>null\<close> unless the watcher is initialized, and the only interval
  timer, if any, is the one \<open>checkTimer\<close> names.
\<close>

fun is_interval :: "timer \<Rightarrow> bool" where
  "is_interval (Interval period cl) = True"
| "is_interval (Timeout due tk) = False"

definition hook_ok :: "hist_fn option \<Rightarrow> hist_fn \<Rightarrow> bool" where
  "hook_ok original current =
     (case original of None \<Rightarrow> current = Native | Some f \<Rightarrow> f = Native)"

definition well_formed :: "state \<Rightarrow> bool" where
  "well_formed s =
     (fresh_ids s \<and> checkTimer s \<noteq> Some 0 \<and>
      hook_ok (ORIGINAL_PUSH_STATE s) (pushState s) \<and>
      hook_ok (ORIGINAL_REPLACE_STATE s) (replaceState s) \<and>
      (isInitialized s \<or> checkTimer s = None) \<and>
      list_all (\<lambda>p. checkTimer s = Some (fst p)) (filter (\<lambda>p. is_interval (snd p)) (timers s)))"

section \<open>Properties\<close>

lemmas watcher_defs =
  truthy_def or_else_def or_empty_def truthy_num_def startsWith_def emit_def unless_silent_def
  add_timer_def setTimeout_def setInterval_def clearTimer_def debounce_call_def
  showUpdateDialog_def showDialog_def getETag_start_def getETag_try_def getETag_finish_def
  notify_def versionUpdateHandler_def versionUpdateHandler_resume_def set_errorCount_def
  checkError_def checkError_resume_def onError_def setupErrorMonitoring_def onNavigate_def
  hookHistoryChange_def setupVersionWatcher_def destroyVersionWatcher_def run_task_def
  timer_fires_def fetch_done_def dispatch_error_def dispatch_popstate_def run_def
  default_def ignored_def
  notifications_def probes_def dialogs_def fresh_page_def

lemmas example_defs =
  page_def with_callback_def with_dialog_def with_interval_def ignoring_root_def served_def
  failed_script_def

subsection \<open>Each function as one update of the state\<close>

lemma unless_silent_nf:
  "unless_silent quiet e s = s\<lparr>trace := trace s @ (if quiet then [] else [e])\<rparr>"
  by (simp add: unless_silent_def emit_def)

lemma showUpdateDialog_nf:
  "showUpdateDialog quiet s =
     s\<lparr>trace := trace s @ [Call_showUpdateDialog],
       last_handle := Suc (last_handle s),
       timers := timers s @ [(Suc (last_handle s), Timeout (now s + 500) (ShowDialog quiet))]\<rparr>"
  by (simp add: showUpdateDialog_def debounce_call_def setTimeout_def add_timer_def clearTimer_def
                emit_def)

lemma versionUpdateHandler_nf:
  "versionUpdateHandler path quiet cb s =
     s\<lparr>trace := trace s @ [FetchHead path],
       fetches := fetches s @ [(next_fetch s, path, KHandler quiet cb)],
       next_fetch := Suc (next_fetch s)\<rparr>"
  by (simp add: versionUpdateHandler_def getETag_start_def emit_def)

lemma hookHistoryChange_nf:
  "hookHistoryChange cl s =
     s\<lparr>ORIGINAL_PUSH_STATE := Some (default (pushState s) (ORIGINAL_PUSH_STATE s)),
       ORIGINAL_REPLACE_STATE := Some (default (replaceState s) (ORIGINAL_REPLACE_STATE s)),
       pushState := Wrapped (default (pushState s) (ORIGINAL_PUSH_STATE s)) cl,
       replaceState := Wrapped (default (replaceState s) (ORIGINAL_REPLACE_STATE s)) cl\<rparr>"
  by (cases "ORIGINAL_PUSH_STATE s"; cases "ORIGINAL_REPLACE_STATE s")
     (simp_all add: hookHistoryChange_def default_def)

lemma setup_disabled:
  "\<not> default True (enabled opts) \<Longrightarrow>
   setupVersionWatcher opts s =
     s\<lparr>trace := trace s @ (if default False (silent opts) then [] else [ConsoleLog MsgDisabled])\<rparr>"
  by (simp add: setupVersionWatcher_def unless_silent_nf)

lemma setup_when_initialized:
  "default True (enabled opts) \<Longrightarrow> isInitialized s \<Longrightarrow>
   setupVersionWatcher opts s =
     s\<lparr>trace := trace s @
          (if default False (silent opts) then [] else [ConsoleWarn MsgAlreadyExists])\<rparr>"
  by (simp add: setupVersionWatcher_def unless_silent_nf)

lemma setup_bypassed:
  "default True (enabled opts) \<Longrightarrow> \<not> isInitialized s \<Longrightarrow>
   ignored (ignorePaths opts) (pathname s) \<Longrightarrow>
   setupVersionWatcher opts s =
     s\<lparr>isInitialized := True,
       trace := trace s @
          (if default False (silent opts) then []
           else [ConsoleLog MsgEnabled, ConsoleLog MsgIgnoreCurrentPath])\<rparr>"
  by (simp add: setupVersionWatcher_def unless_silent_nf)

lemma setup_armed:
  "default True (enabled opts) \<Longrightarrow> \<not> isInitialized s \<Longrightarrow>
   \<not> ignored (ignorePaths opts) (pathname s) \<Longrightarrow>
   setupVersionWatcher opts s =
     s\<lparr>isInitialized := True,
       checkTimer := (if default 0 (checkInterval opts) > 0 then Some (Suc (last_handle s))
                      else checkTimer s),
       last_handle := (if default 0 (checkInterval opts) > 0 then Suc (last_handle s)
                       else last_handle s),
       timers := timers s @
          (if default 0 (checkInterval opts) > 0
           then [(Suc (last_handle s),
                  Interval (default 0 (checkInterval opts)) (setup_closure opts s))]
           else []),
       ORIGINAL_PUSH_STATE := Some (default (pushState s) (ORIGINAL_PUSH_STATE s)),
       ORIGINAL_REPLACE_STATE := Some (default (replaceState s) (ORIGINAL_REPLACE_STATE s)),
       pushState := Wrapped (default (pushState s) (ORIGINAL_PUSH_STATE s)) (setup_closure opts s),
       replaceState :=
         Wrapped (default (replaceState s) (ORIGINAL_REPLACE_STATE s)) (setup_closure opts s),
       popstate_listeners := popstate_listeners s @ [setup_closure opts s],
       error_listeners := error_listeners s @
          [\<lparr>m_checkPath = default (origin s @ ''/'') (checkPath opts),
            m_silent = default False (silent opts),
            m_onUpdateDetected = onUpdateDetected opts, errorCount = 0, m_timer = None\<rparr>],
       trace := trace s @
          (if default False (silent opts) then [] else [ConsoleLog MsgEnabled]) @
          [FetchHead (default (origin s @ ''/'') (checkPath opts))],
       fetches := fetches s @
          [(next_fetch s, default (origin s @ ''/'') (checkPath opts),
            KHandler (default False (silent opts)) (onUpdateDetected opts))],
       next_fetch := Suc (next_fetch s)\<rparr>"
  by (simp add: setupVersionWatcher_def unless_silent_nf Let_def setInterval_def add_timer_def
        hookHistoryChange_nf setupErrorMonitoring_def versionUpdateHandler_nf setup_closure_def)

lemma setup_initialized:
  "default True (enabled opts) \<Longrightarrow> isInitialized (setupVersionWatcher opts s)"
  by (cases "isInitialized s"; cases "ignored (ignorePaths opts) (pathname s)")
     (simp_all add: setup_when_initialized setup_bypassed setup_armed)

subsection \<open>The probe\<close>

text \<open>
  C6. The continuation of \<open>getETag\<close> always returns a value, never an exception, for
  every way the request can settle: the empty string after a rejected request or a
  response that is not \<open>ok\<close>, and otherwise the \<open>ETag\<close> header if it is present and
  non-empty, else the \<open>Last-Modified\<close> header, else the empty string. The state changes
  by one warning on the console in the two failure cases, unless \<open>silent\<close> is set, and
  not at all otherwise.
\<close>

theorem getETag_soft_failure:
  "fst (getETag_finish quiet r s) =
     Inr (case r of
            NetworkError \<Rightarrow> []
          | Response ok etag lastmod \<Rightarrow>
              if ok then
                (case etag of
                   Some e \<Rightarrow> if e \<noteq> [] then e else (case lastmod of Some l \<Rightarrow> l | None \<Rightarrow> [])
                 | None \<Rightarrow> (case lastmod of Some l \<Rightarrow> l | None \<Rightarrow> []))
              else [])
   \<and> snd (getETag_finish quiet r s) =
       s\<lparr>trace := trace s @
          (if quiet then []
           else (case r of NetworkError \<Rightarrow> [ConsoleWarn MsgETagFailed]
                 | Response ok etag lastmod \<Rightarrow> if ok then [] else [ConsoleWarn MsgETagFailed]))\<rparr>"
  by (simp add: getETag_finish_def getETag_try_def or_else_def or_empty_def truthy_def
                unless_silent_def emit_def
           split: fetch_result.splits option.splits)

subsection \<open>Setup\<close>

lemma setup_ignored_frame:
  "ignored (ignorePaths opts) (pathname s) \<Longrightarrow>
   setupVersionWatcher opts s =
     s\<lparr>isInitialized := (isInitialized s \<or> default True (enabled opts)),
       trace := trace s @
         (if default False (silent opts) then []
          else if \<not> default True (enabled opts) then [ConsoleLog MsgDisabled]
          else if isInitialized s then [ConsoleWarn MsgAlreadyExists]
          else [ConsoleLog MsgEnabled, ConsoleLog MsgIgnoreCurrentPath])\<rparr>"
  by (cases "default True (enabled opts)"; cases "isInitialized s")
     (simp_all add: setup_disabled setup_when_initialized setup_bypassed)

text \<open>
  On a page where nothing is installed, every event but a teardown leaves nothing
  installed and sends no request.
\<close>

lemma inert_step:
  assumes "inert s" "\<not> is_destroy e"
  shows "inert (step e s)"
proof (cases e)
  case (Setup opts)
  with assms show ?thesis
    by (cases "default True (enabled opts)")
       (simp_all add: inert_def setup_disabled setup_when_initialized probes_def)
next
  case Destroy
  with assms show ?thesis by simp
next
  case (PushState p)
  with assms show ?thesis by (simp add: inert_def probes_def)
next
  case (ReplaceState p)
  with assms show ?thesis by (simp add: inert_def probes_def)
next
  case (PopState p)
  with assms show ?thesis by (simp add: inert_def probes_def dispatch_popstate_def)
next
  case (AssetError tg)
  with assms show ?thesis by (simp add: inert_def probes_def dispatch_error_def)
next
  case (Advance d)
  with assms show ?thesis by (simp add: inert_def probes_def)
next
  case (TimerFires h a)
  with assms show ?thesis by (simp add: inert_def probes_def timer_fires_def)
next
  case (FetchDone n r)
  with assms show ?thesis by (simp add: inert_def probes_def fetch_done_def)
qed

lemma inert_run:
  "inert s \<Longrightarrow> \<not> list_ex is_destroy evs \<Longrightarrow> inert (run evs s)"
  unfolding run_def
  by (induction evs arbitrary: s) (simp_all add: inert_step)

text \<open>
  C5. When \<open>ignorePaths\<close> matches the path the page is on, \<open>setupVersionWatcher\<close>
  changes nothing but the \<open>isInitialized\<close> flag and the console: no timer, no history
  hook, no listener and no request. On a freshly loaded page this stays so for the whole
  load: whatever happens afterwards, short of a teardown, no request is ever sent and
  nothing is installed.
\<close>

theorem setup_bypass_on_ignored_path:
  "(ignored (ignorePaths opts) (pathname s) \<longrightarrow>
      setupVersionWatcher opts s =
        s\<lparr>isInitialized := (isInitialized s \<or> default True (enabled opts)),
          trace := trace s @
            (if default False (silent opts) then []
             else if \<not> default True (enabled opts) then [ConsoleLog MsgDisabled]
             else if isInitialized s then [ConsoleWarn MsgAlreadyExists]
             else [ConsoleLog MsgEnabled, ConsoleLog MsgIgnoreCurrentPath])\<rparr>
      \<and> probes (setupVersionWatcher opts s) = probes s)
   \<and> (default True (enabled opts) \<and> ignored (ignorePaths opts) path \<and>
        \<not> list_ex is_destroy evs \<longrightarrow>
        inert (run evs (setupVersionWatcher opts (fresh_page org path box msg))))"
proof (intro conjI impI)
  assume "ignored (ignorePaths opts) (pathname s)"
  then show frame: "setupVersionWatcher opts s =
        s\<lparr>isInitialized := (isInitialized s \<or> default True (enabled opts)),
          trace := trace s @
            (if default False (silent opts) then []
             else if \<not> default True (enabled opts) then [ConsoleLog MsgDisabled]
             else if isInitialized s then [ConsoleWarn MsgAlreadyExists]
             else [ConsoleLog MsgEnabled, ConsoleLog MsgIgnoreCurrentPath])\<rparr>"
    by (rule setup_ignored_frame)
  show "probes (setupVersionWatcher opts s) = probes s"
    by (simp add: frame probes_def)
next
  assume a: "default True (enabled opts) \<and> ignored (ignorePaths opts) path \<and>
        \<not> list_ex is_destroy evs"
  have "setupVersionWatcher opts (fresh_page org path box msg) =
          (fresh_page org path box msg)
            \<lparr>isInitialized := True,
             trace := trace (fresh_page org path box msg) @
               (if default False (silent opts) then []
                else [ConsoleLog MsgEnabled, ConsoleLog MsgIgnoreCurrentPath])\<rparr>"
    using a by (intro setup_bypassed) (simp_all add: fresh_page_def)
  then have "inert (setupVersionWatcher opts (fresh_page org path box msg))"
    by (simp add: inert_def fresh_page_def probes_def)
  then show "inert (run evs (setupVersionWatcher opts (fresh_page org path box msg)))"
    using a by (intro inert_run) simp_all
qed

theorem setup_bypass_on_ignored_path_witness:
  "ignored (ignorePaths ignoring_root) (pathname page) \<and>
   default True (enabled ignoring_root) \<and>
   \<not> list_ex is_destroy quiet_load \<and>
   setupVersionWatcher ignoring_root page =
     page\<lparr>isInitialized := True,
          trace := [ConsoleLog MsgEnabled, ConsoleLog MsgIgnoreCurrentPath]\<rparr> \<and>
   probes (setupVersionWatcher ignoring_root page) = 0 \<and>
   inert (run quiet_load (setupVersionWatcher ignoring_root page))"
proof -
  have h1: "ignored (ignorePaths ignoring_root) (pathname page)"
    by (simp add: ignoring_root_def page_def fresh_page_def ignored_def)
  have h2: "default True (enabled ignoring_root)"
    by (simp add: ignoring_root_def default_def)
  have h3: "\<not> list_ex is_destroy quiet_load"
    by (simp add: quiet_load_def)
  have h4: "ignored (ignorePaths ignoring_root) ''/''"
    by (simp add: ignoring_root_def ignored_def)
  note t = setup_bypass_on_ignored_path
             [of ignoring_root page "''/''" quiet_load "''https://a.com''" False False]
  have e: "page\<lparr>isInitialized := (isInitialized page \<or> default True (enabled ignoring_root)),
          trace := trace page @
            (if default False (silent ignoring_root) then []
             else if \<not> default True (enabled ignoring_root) then [ConsoleLog MsgDisabled]
             else if isInitialized page then [ConsoleWarn MsgAlreadyExists]
             else [ConsoleLog MsgEnabled, ConsoleLog MsgIgnoreCurrentPath])\<rparr> =
     page\<lparr>isInitialized := True,
          trace := [ConsoleLog MsgEnabled, ConsoleLog MsgIgnoreCurrentPath]\<rparr>"
    by (simp add: ignoring_root_def default_def page_def fresh_page_def)
  have p0: "probes page = 0"
    by (simp add: probes_def page_def fresh_page_def)
  from t h1 have c1: "setupVersionWatcher ignoring_root page =
     page\<lparr>isInitialized := True,
          trace := [ConsoleLog MsgEnabled, ConsoleLog MsgIgnoreCurrentPath]\<rparr>"
    unfolding e by blast
  from t h1 p0 have c2: "probes (setupVersionWatcher ignoring_root page) = 0"
    by metis
  from t h2 h3 h4 have c3: "inert (run quiet_load (setupVersionWatcher ignoring_root page))"
    unfolding page_def by blast
  from h1 h2 h3 c1 c2 c3 show ?thesis by blast
qed

text \<open>
  C7. After a call of \<open>setupVersionWatcher\<close> with the watcher enabled, a second call,
  with whatever options, returns at once: it leaves the state as the first call left it
  and only prints the warning of line 56 (nothing when its \<open>silent\<close> option is set; the
  message of line 51 when it is itself disabled). In particular a call repeated with the
  same options changes nothing but the console. The module has one \<open>sysVersion\<close>, one
  \<open>checkTimer\<close> and one flag, and the second call adds no timer, hook or listener to
  those of the first.
\<close>

theorem setup_twice_idempotent:
  "(default True (enabled opts) \<longrightarrow>
      setupVersionWatcher opts2 (setupVersionWatcher opts s) =
        (setupVersionWatcher opts s)
          \<lparr>trace := trace (setupVersionWatcher opts s) @
             (if default False (silent opts2) then []
              else [if default True (enabled opts2) then ConsoleWarn MsgAlreadyExists
                    else ConsoleLog MsgDisabled])\<rparr>)
   \<and> setupVersionWatcher opts (setupVersionWatcher opts s) =
        (setupVersionWatcher opts s)
          \<lparr>trace := trace (setupVersionWatcher opts s) @
             (if default False (silent opts) then []
              else [if default True (enabled opts) then ConsoleWarn MsgAlreadyExists
                    else ConsoleLog MsgDisabled])\<rparr>"
proof -
  have again: "setupVersionWatcher o2 t =
        t\<lparr>trace := trace t @
             (if default False (silent o2) then []
              else [if default True (enabled o2) then ConsoleWarn MsgAlreadyExists
                    else ConsoleLog MsgDisabled])\<rparr>"
    if "isInitialized t \<or> \<not> default True (enabled o2)" for o2 t
    using that
    by (cases "default True (enabled o2)") (simp_all add: setup_disabled setup_when_initialized)
  have first: "setupVersionWatcher opts2 (setupVersionWatcher opts s) =
        (setupVersionWatcher opts s)
          \<lparr>trace := trace (setupVersionWatcher opts s) @
             (if default False (silent opts2) then []
              else [if default True (enabled opts2) then ConsoleWarn MsgAlreadyExists
                    else ConsoleLog MsgDisabled])\<rparr>"
    if "default True (enabled opts)"
    using that by (intro again) (simp add: setup_initialized)
  have second: "setupVersionWatcher opts (setupVersionWatcher opts s) =
        (setupVersionWatcher opts s)
          \<lparr>trace := trace (setupVersionWatcher opts s) @
             (if default False (silent opts) then []
              else [if default True (enabled opts) then ConsoleWarn MsgAlreadyExists
                    else ConsoleLog MsgDisabled])\<rparr>"
    by (cases "default True (enabled opts)") (simp_all add: again setup_initialized)
  from first second show ?thesis by blast
qed

theorem setup_twice_idempotent_witness:
  "default True (enabled with_interval) \<and>
   setupVersionWatcher with_callback (setupVersionWatcher with_interval page) =
     (setupVersionWatcher with_interval page)
       \<lparr>trace := [ConsoleLog MsgEnabled, FetchHead ''https://a.com/'',
                  ConsoleWarn MsgAlreadyExists]\<rparr>
   \<and> map fst (timers (setupVersionWatcher with_interval
                        (setupVersionWatcher with_interval page))) = [1]
   \<and> length (popstate_listeners (setupVersionWatcher with_interval
                        (setupVersionWatcher with_interval page))) = 1"
  using setup_twice_idempotent [of with_interval with_callback page]
  by (simp add: example_defs watcher_defs Let_def)

subsection \<open>Teardown\<close>

lemma destroy_nf:
  "destroyVersionWatcher s =
     s\<lparr>checkTimer := (if truthy_num (checkTimer s) then None else checkTimer s),
       timers := (if truthy_num (checkTimer s)
                  then filter (\<lambda>p. Some (fst p) \<noteq> checkTimer s) (timers s) else timers s),
       isInitialized := False,
       pushState := default (pushState s) (ORIGINAL_PUSH_STATE s),
       replaceState := default (replaceState s) (ORIGINAL_REPLACE_STATE s),
       trace := trace s @ [ConsoleLog MsgDestroyed]\<rparr>"
  by (cases "checkTimer s"; cases "ORIGINAL_PUSH_STATE s"; cases "ORIGINAL_REPLACE_STATE s")
     (simp_all add: destroyVersionWatcher_def Let_def clearTimer_def emit_def default_def
        truthy_num_def)

lemma map_of_filter_out: "map_of (filter (\<lambda>p. fst p \<noteq> h) xs) h = None"
  by (induction xs) auto

lemma armed_eval:
  "ORIGINAL_PUSH_STATE armed = Some Native"
  "ORIGINAL_REPLACE_STATE armed = Some Native"
  "checkTimer armed = Some 1"
  "sysVersion armed = Some ''v1''"
  "pathname armed = ''/''"
  "map fst (timers armed) = [1]"
  by (simp_all add: armed_def example_defs watcher_defs Let_def)

subsection \<open>An evaluation: the request and its continuation\<close>

lemma filter_fresh:
  "list_all (\<lambda>p. fst p < (n::nat)) xs \<Longrightarrow> filter (\<lambda>p. fst p \<noteq> n) xs = xs"
  by (induction xs) auto

lemma map_of_fresh:
  "list_all (\<lambda>p. fst p < (n::nat)) xs \<Longrightarrow> map_of (xs @ [(n, v)]) n = Some v"
  by (induction xs) auto

lemma getETag_finish_nf:
  "getETag_finish quiet r s =
     (Inr (fingerprint r),
      s\<lparr>trace := trace s @
          (if quiet \<or> getETag_try r = Inr (fingerprint r) then [] else [ConsoleWarn MsgETagFailed])\<rparr>)"
  by (cases "getETag_try r") (simp_all add: getETag_finish_def fingerprint_def unless_silent_nf)

lemma notify_nf:
  "notify quiet cb s =
     s\<lparr>trace := trace s @ [case cb of Some f \<Rightarrow> Call_onUpdateDetected f | None \<Rightarrow> Call_showUpdateDialog],
       last_handle := (if cb = None then Suc (last_handle s) else last_handle s),
       timers := timers s @
         (if cb = None then [(Suc (last_handle s), Timeout (now s + 500) (ShowDialog quiet))]
          else [])\<rparr>"
  by (cases cb) (simp_all add: notify_def showUpdateDialog_nf emit_def)

lemma fetch_done_handler:
  "map_of (fetches s) n = Some (url, KHandler quiet cb) \<Longrightarrow>
   fetch_done n r s =
     versionUpdateHandler_resume quiet cb (Inr (fingerprint r))
       (s\<lparr>fetches := filter (\<lambda>p. fst p \<noteq> n) (fetches s),
          trace := trace s @
            (if quiet \<or> getETag_try r = Inr (fingerprint r) then []
             else [ConsoleWarn MsgETagFailed])\<rparr>)"
  by (simp add: fetch_done_def getETag_finish_nf)

lemma evaluate_nf:
  assumes "fresh_ids s"
  shows "evaluate path quiet cb r s =
     versionUpdateHandler_resume quiet cb (Inr (fingerprint r))
       (s\<lparr>next_fetch := Suc (next_fetch s),
          trace := trace s @ [FetchHead path] @
            (if quiet \<or> getETag_try r = Inr (fingerprint r) then []
             else [ConsoleWarn MsgETagFailed])\<rparr>)"
proof -
  let ?s1 = "versionUpdateHandler path quiet cb s"
  have m: "map_of (fetches ?s1) (next_fetch s) = Some (path, KHandler quiet cb)"
    using assms by (simp add: versionUpdateHandler_nf fresh_ids_def map_of_fresh del: map_of_append)
  have f: "filter (\<lambda>p. fst p \<noteq> next_fetch s) (fetches ?s1) = fetches s"
    using assms by (simp add: versionUpdateHandler_nf fresh_ids_def filter_fresh)
  have "?s1\<lparr>fetches := fetches s,
          trace := trace ?s1 @
            (if quiet \<or> getETag_try r = Inr (fingerprint r) then []
             else [ConsoleWarn MsgETagFailed])\<rparr> =
        s\<lparr>next_fetch := Suc (next_fetch s),
          trace := trace s @ [FetchHead path] @
            (if quiet \<or> getETag_try r = Inr (fingerprint r) then []
             else [ConsoleWarn MsgETagFailed])\<rparr>"
    by (simp add: versionUpdateHandler_nf)
  then show ?thesis
    unfolding evaluate_def fetch_done_handler [OF m] f by simp
qed



lemma resume_differs:
  "truthy (sysVersion s) \<Longrightarrow> sysVersion s \<noteq> Some v \<Longrightarrow>
   versionUpdateHandler_resume quiet cb (Inr v) s =
     s\<lparr>trace := trace s @
          (if quiet then [] else [ConsoleLog (MsgVersionChanged (sysVersion s) v)]) @
          [case cb of Some f \<Rightarrow> Call_onUpdateDetected f | None \<Rightarrow> Call_showUpdateDialog],
       last_handle := (if cb = None then Suc (last_handle s) else last_handle s),
       timers := timers s @
         (if cb = None then [(Suc (last_handle s), Timeout (now s + 500) (ShowDialog quiet))]
          else [])\<rparr>"
  by (simp add: versionUpdateHandler_resume_def notify_nf unless_silent_nf)



lemma evaluate_differs:
  assumes "fresh_ids s" "truthy (sysVersion s)" "sysVersion s \<noteq> Some (fingerprint r)"
  shows "sysVersion (evaluate path quiet cb r s) = sysVersion s"
    and "notifications (evaluate path quiet cb r s) = Suc (notifications s)"
    and "fresh_ids (evaluate path quiet cb r s)"
  using assms
  by (simp_all add: evaluate_nf resume_differs notifications_def fresh_ids_def list_all_iff
        split: option.split)
     auto

lemma set_errorCount_sysVersion: "sysVersion (set_errorCount i n s) = sysVersion s"
  by (simp add: set_errorCount_def)

lemma checkError_resume_sysVersion: "sysVersion (checkError_resume i res s) = sysVersion s"
  by (cases res) (simp_all add: checkError_resume_def set_errorCount_sysVersion notify_nf)

text \<open>
  C8. When an evaluation finds the probed fingerprint different from a stored, non-empty
  baseline, it notifies and leaves \<open>sysVersion\<close> as it was; so do any number of further
  evaluations that get the same answer, each of which notifies again. The continuation
  of the asset-error path never assigns \<open>sysVersion\<close> either.
\<close>

theorem baseline_kept_after_notification:
  "fresh_ids s \<Longrightarrow> truthy (sysVersion s) \<Longrightarrow> sysVersion s \<noteq> Some (fingerprint r) \<Longrightarrow>
   sysVersion ((evaluate path quiet cb r ^^ n) s) = sysVersion s \<and>
   notifications ((evaluate path quiet cb r ^^ n) s) = notifications s + n \<and>
   sysVersion (checkError_resume i res s) = sysVersion s"
proof -
  assume a: "fresh_ids s" "truthy (sysVersion s)" "sysVersion s \<noteq> Some (fingerprint r)"
  have "sysVersion ((evaluate path quiet cb r ^^ n) s) = sysVersion s \<and>
        notifications ((evaluate path quiet cb r ^^ n) s) = notifications s + n \<and>
        fresh_ids ((evaluate path quiet cb r ^^ n) s)"
  proof (induction n)
    case 0
    show ?case using a by simp
  next
    case (Suc n)
    let ?t = "(evaluate path quiet cb r ^^ n) s"
    from Suc a have t: "fresh_ids ?t" "truthy (sysVersion ?t)"
      "sysVersion ?t \<noteq> Some (fingerprint r)" by simp_all
    show ?case
      using evaluate_differs [OF t] Suc by simp
  qed
  then show ?thesis by (simp add: checkError_resume_sysVersion)
qed


theorem baseline_kept_after_notification_witness:
  "fresh_ids armed \<and> truthy (sysVersion armed) \<and>
   sysVersion armed \<noteq> Some (fingerprint (served ''v2'')) \<and>
   sysVersion ((evaluate ''https://a.com/'' False (Some 7) (served ''v2'') ^^ 3) armed) =
     sysVersion armed \<and>
   notifications ((evaluate ''https://a.com/'' False (Some 7) (served ''v2'') ^^ 3) armed) =
     notifications armed + 3 \<and>
   sysVersion (checkError_resume 0 (Inr ''v2'') armed) = sysVersion armed"
proof -
  have h1: "fresh_ids armed"
    by (simp add: armed_def fresh_ids_def example_defs watcher_defs Let_def)
  have h2: "truthy (sysVersion armed)"
    by (simp add: armed_eval truthy_def)
  have h3: "sysVersion armed \<noteq> Some (fingerprint (served ''v2''))"
    by (simp add: armed_eval fingerprint_def served_def getETag_try_def or_else_def or_empty_def
          truthy_def)
  from baseline_kept_after_notification [OF h1 h2 h3] h1 h2 h3 show ?thesis by blast
qed



lemma armed_fresh_ids: "fresh_ids armed"
  by (simp add: armed_def fresh_ids_def example_defs watcher_defs Let_def)












subsection \<open>The two paths compare differently\<close>

text \<open>
  When the request of an evaluation has settled with fingerprint \<open>v\<close>,
  \<open>versionUpdateHandler\<close> notifies exactly when the baseline is non-empty and differs
  from \<open>v\<close>; \<open>checkError\<close> asks in addition that \<open>v\<close> be non-empty.
\<close>

lemma notifications_notify: "notifications (notify quiet cb s) = Suc (notifications s)"
  by (cases cb) (simp_all add: notify_nf notifications_def)

lemma notifications_set_errorCount:
  "notifications (set_errorCount i n s) = notifications s"
  by (simp add: set_errorCount_def notifications_def)

lemma handler_rule:
  "notifications (versionUpdateHandler_resume quiet cb (Inr v) s) =
     notifications s + (if truthy (sysVersion s) \<and> sysVersion s \<noteq> Some v then 1 else 0)"
  by (simp add: versionUpdateHandler_resume_def notifications_notify)
     (simp add: notifications_def unless_silent_nf)

lemma correlator_rule:
  "i < length (error_listeners s) \<Longrightarrow>
   notifications (checkError_resume i (Inr v) s) =
     notifications s +
       (if truthy (sysVersion s) \<and> v \<noteq> [] \<and> sysVersion s \<noteq> Some v then 1 else 0)"
  by (simp add: checkError_resume_def notifications_set_errorCount notifications_notify)

text \<open>
  C1 does not hold of the code. With baseline \<open>v1\<close> stored, a navigation whose probe
  fails (the fingerprint is empty) makes \<open>versionUpdateHandler\<close> notify, since line 200
  compares without asking whether the new fingerprint is non-empty; the asset-error
  path, which does ask (line 113), sends its probe and stays silent on the same answer.
\<close>

theorem handler_notifies_on_empty_probe:
  "sysVersion armed = Some ''v1'' \<and> fingerprint NetworkError = [] \<and>
   notifications (run [PopState ''/a'', FetchDone 1 NetworkError] armed) =
     Suc (notifications armed) \<and>
   notifications
     (run [AssetError (failed_script ''https://a.com/app.js''),
           AssetError (failed_script ''https://a.com/app.js''),
           Advance 1000, TimerFires 3 False, FetchDone 1 NetworkError] armed) =
     notifications armed \<and>
   probes
     (run [AssetError (failed_script ''https://a.com/app.js''),
           AssetError (failed_script ''https://a.com/app.js''),
           Advance 1000, TimerFires 3 False, FetchDone 1 NetworkError] armed) =
     Suc (probes armed)"
  by (simp add: armed_def fingerprint_def example_defs watcher_defs Let_def)

subsection \<open>The asset-error correlator\<close>

text \<open>
  What the listener and the debounced check do: an event is passed over when it has no
  target, no URL, a URL that does not start with the page's origin, or a tag other than
  \<open>SCRIPT\<close> and \<open>LINK\<close>; otherwise the tally goes up by one. The check probes only
  when the tally exceeds 1, and the tally is 0 again after it.
\<close>

lemma onError_ignores:
  "tg = None \<or> (\<exists>t. tg = Some t \<and>
      (\<not> truthy (or_else (src t) (href t)) \<or>
       (\<exists>url. or_else (src t) (href t) = Some url \<and> \<not> startsWith url (origin s)) \<or>
       (tagName t \<noteq> ''SCRIPT'' \<and> tagName t \<noteq> ''LINK''))) \<Longrightarrow>
   onError i tg s = s"
  by (auto simp add: onError_def truthy_def split: option.splits)

lemma onError_counts:
  assumes "i < length (error_listeners s)" "or_else (src t) (href t) = Some url" "url \<noteq> []"
    "startsWith url (origin s)" "tagName t = ''SCRIPT'' \<or> tagName t = ''LINK''"
  shows "errorCount (error_listeners (onError i (Some t) s) ! i) =
           Suc (errorCount (error_listeners s ! i))"
  using assms
  by (simp add: onError_def Let_def split_def debounce_call_def setTimeout_def add_timer_def
        clearTimer_def set_errorCount_def unless_silent_nf split: option.split)

lemma checkError_threshold:
  "i < length (error_listeners s) \<Longrightarrow>
   probes (checkError i s) =
     probes s + (if errorCount (error_listeners s ! i) > 1 then 1 else 0)"
  by (simp add: checkError_def getETag_start_def emit_def set_errorCount_def probes_def)

lemma tally_reset:
  "i < length (error_listeners s) \<Longrightarrow>
   errorCount (error_listeners (checkError_resume i (Inr v) s) ! i) = 0"
  "i < length (error_listeners s) \<Longrightarrow> \<not> errorCount (error_listeners s ! i) > 1 \<Longrightarrow>
   errorCount (error_listeners (checkError i s) ! i) = 0"
  by (simp_all add: checkError_resume_def checkError_def set_errorCount_def notify_nf)

text \<open>
  C4 does not hold of the code. On the page \<open>https://a.com\<close> the script
  \<open>https://a.com.evil.net/x.js\<close> is cross-origin, yet its URL starts with the page's
  origin, which is all line 134 tests: two such failures bring the tally to 2, and the
  probe after the debounce window notifies.
\<close>

theorem prefix_match_counts_cross_origin:
  "origin armed = ''https://a.com'' \<and>
   origin_of_url ''https://a.com.evil.net/x.js'' = ''https://a.com.evil.net'' \<and>
   map errorCount (error_listeners
     (run [AssetError (failed_script ''https://a.com.evil.net/x.js''),
           AssetError (failed_script ''https://a.com.evil.net/x.js'')] armed)) = [2] \<and>
   notifications
     (run [AssetError (failed_script ''https://a.com.evil.net/x.js''),
           AssetError (failed_script ''https://a.com.evil.net/x.js''),
           Advance 1000, TimerFires 3 False, FetchDone 1 (served ''v2'')] armed) =
     Suc (notifications armed)"
  by (simp add: armed_def example_defs watcher_defs Let_def)

subsection \<open>The default confirmation flow\<close>

text \<open>
  C9 does not hold of the code. Two calls of \<open>showUpdateDialog\<close> 100 ms apart leave two
  pending time-outs, due at 500 ms and at 600 ms, because each call makes a debounced
  function of its own and none cancels the other's timer; both fire and two dialogs are
  presented.
\<close>

theorem burst_presents_two_dialogs:
  "timers (run burst armed_dialog) =
     [(1, Timeout 500 (ShowDialog False)), (2, Timeout 600 (ShowDialog False))] \<and>
   dialogs (run (burst @ [Advance 400, TimerFires 1 False, Advance 100, TimerFires 2 False])
              armed_dialog) = 2"
  by (simp add: burst_def armed_dialog_def example_defs watcher_defs Let_def)

subsection \<open>Listeners outlive the teardown\<close>

lemma onNavigate_effect:
  "pathname (onNavigate cl s) = pathname s"
  "probes (onNavigate cl s) =
     probes s + (if ignored (c_ignorePaths cl) (pathname s) then 0 else 1)"
  by (simp_all add: onNavigate_def unless_silent_nf versionUpdateHandler_nf probes_def)

lemma fold_onNavigate:
  "pathname (fold onNavigate cls s) = pathname s \<and>
   probes (fold onNavigate cls s) =
     probes s + length (filter (\<lambda>cl. \<not> ignored (c_ignorePaths cl) (pathname s)) cls)"
  by (induction cls arbitrary: s) (simp_all add: onNavigate_effect)

text \<open>
  C10. \<open>destroyVersionWatcher\<close> leaves the \<open>popstate\<close> listeners, the \<open>error\<close>
  listeners and the baseline as they are. A \<open>popstate\<close> event after the teardown still
  sends one probe for every listener whose \<open>ignorePaths\<close> does not match the new path.
  On the page \<open>armed\<close> after its teardown, a back/forward navigation sends a probe and,
  the server answering \<open>v2\<close>, notifies; so do two failed same-origin assets once the
  debounce timer has fired.
\<close>

theorem teardown_leaves_listeners:
  "popstate_listeners (destroyVersionWatcher s) = popstate_listeners s \<and>
   error_listeners (destroyVersionWatcher s) = error_listeners s \<and>
   sysVersion (destroyVersionWatcher s) = sysVersion s \<and>
   probes (dispatch_popstate path (destroyVersionWatcher s)) =
     probes s + length (filter (\<lambda>cl. \<not> ignored (c_ignorePaths cl) path) (popstate_listeners s)) \<and>
   length (popstate_listeners torn) = 1 \<and> length (error_listeners torn) = 1 \<and>
   \<not> isInitialized torn \<and> timers torn = [] \<and>
   probes (run [PopState ''/b''] torn) = Suc (probes torn) \<and>
   notifications (run [PopState ''/b'', FetchDone 1 (served ''v2'')] torn) =
     Suc (notifications torn) \<and>
   probes (run two_failures torn) = Suc (probes torn) \<and>
   notifications (run (two_failures @ [FetchDone 1 (served ''v2'')]) torn) =
     Suc (notifications torn)"
proof -
  have g: "popstate_listeners (destroyVersionWatcher s) = popstate_listeners s \<and>
   error_listeners (destroyVersionWatcher s) = error_listeners s \<and>
   sysVersion (destroyVersionWatcher s) = sysVersion s"
    by (simp add: destroy_nf)
  have p: "probes (dispatch_popstate path (destroyVersionWatcher s)) =
     probes s + length (filter (\<lambda>cl. \<not> ignored (c_ignorePaths cl) path) (popstate_listeners s))"
    unfolding dispatch_popstate_def
    by (simp add: fold_onNavigate) (simp add: destroy_nf probes_def)
  have c: "length (popstate_listeners torn) = 1 \<and> length (error_listeners torn) = 1 \<and>
   \<not> isInitialized torn \<and> timers torn = [] \<and>
   probes (run [PopState ''/b''] torn) = Suc (probes torn) \<and>
   notifications (run [PopState ''/b'', FetchDone 1 (served ''v2'')] torn) =
     Suc (notifications torn) \<and>
   probes (run two_failures torn) = Suc (probes torn) \<and>
   notifications (run (two_failures @ [FetchDone 1 (served ''v2'')]) torn) =
     Suc (notifications torn)"
    by (simp add: torn_def two_failures_def armed_def example_defs watcher_defs Let_def)
  from g p c show ?thesis by blast
qed

subsection \<open>Reachable states\<close>

lemma wf_frame:
  "well_formed s \<Longrightarrow> fetches t = fetches s \<Longrightarrow> next_fetch t = next_fetch s \<Longrightarrow>
   checkTimer t = checkTimer s \<Longrightarrow> isInitialized t = isInitialized s \<Longrightarrow>
   ORIGINAL_PUSH_STATE t = ORIGINAL_PUSH_STATE s \<Longrightarrow> pushState t = pushState s \<Longrightarrow>
   ORIGINAL_REPLACE_STATE t = ORIGINAL_REPLACE_STATE s \<Longrightarrow> replaceState t = replaceState s \<Longrightarrow>
   filter (\<lambda>p. is_interval (snd p)) (timers t) =
     filter Q (filter (\<lambda>p. is_interval (snd p)) (timers s)) \<Longrightarrow>
   well_formed t"
  by (auto simp add: well_formed_def fresh_ids_def list_all_iff)

lemma wf_frame_same:
  "well_formed s \<Longrightarrow> fetches t = fetches s \<Longrightarrow> next_fetch t = next_fetch s \<Longrightarrow>
   checkTimer t = checkTimer s \<Longrightarrow> isInitialized t = isInitialized s \<Longrightarrow>
   ORIGINAL_PUSH_STATE t = ORIGINAL_PUSH_STATE s \<Longrightarrow> pushState t = pushState s \<Longrightarrow>
   ORIGINAL_REPLACE_STATE t = ORIGINAL_REPLACE_STATE s \<Longrightarrow> replaceState t = replaceState s \<Longrightarrow>
   filter (\<lambda>p. is_interval (snd p)) (timers t) =
     filter (\<lambda>p. is_interval (snd p)) (timers s) \<Longrightarrow>
   well_formed t"
  by (simp add: well_formed_def fresh_ids_def)

lemma list_all_less_Suc:
  "list_all (\<lambda>p. fst p < (n::nat)) xs \<Longrightarrow> list_all (\<lambda>p. fst p < Suc n) xs"
  by (induction xs) auto

lemma list_all_filter: "list_all P xs \<Longrightarrow> list_all P (filter Q xs)"
  by (induction xs) auto

lemma wf_update:
  "well_formed (s\<lparr>trace := t\<rparr>) = well_formed s"
  "well_formed (s\<lparr>pathname := p\<rparr>) = well_formed s"
  "well_formed (s\<lparr>now := d\<rparr>) = well_formed s"
  "well_formed (s\<lparr>sysVersion := v\<rparr>) = well_formed s"
  "well_formed (s\<lparr>error_listeners := ms\<rparr>) = well_formed s"
  by (simp_all add: well_formed_def fresh_ids_def)

lemma wf_getETag_start: "well_formed s \<Longrightarrow> well_formed (getETag_start url k s)"
  by (simp add: well_formed_def fresh_ids_def getETag_start_def emit_def list_all_less_Suc)

lemma wf_versionUpdateHandler:
  "well_formed s \<Longrightarrow> well_formed (versionUpdateHandler path quiet cb s)"
  by (simp add: versionUpdateHandler_def wf_getETag_start)

lemma wf_unless_silent: "well_formed s \<Longrightarrow> well_formed (unless_silent quiet e s)"
  by (simp add: unless_silent_nf wf_update)

lemma wf_onNavigate: "well_formed s \<Longrightarrow> well_formed (onNavigate cl s)"
  by (simp add: onNavigate_def wf_versionUpdateHandler wf_unless_silent)

lemma wf_fold_onNavigate: "well_formed s \<Longrightarrow> well_formed (fold onNavigate cls s)"
  by (induction cls arbitrary: s) (simp_all add: wf_onNavigate)

lemma wf_call_history: "well_formed s \<Longrightarrow> well_formed (call_history f path s)"
  by (induction f arbitrary: s) (simp_all add: wf_onNavigate wf_update)

lemma wf_set_errorCount: "well_formed s \<Longrightarrow> well_formed (set_errorCount i n s)"
  by (simp add: set_errorCount_def wf_update)

lemma wf_clearTimer: "well_formed s \<Longrightarrow> well_formed (clearTimer h s)"
proof (cases h)
  case None
  then show "well_formed s \<Longrightarrow> ?thesis" by (simp add: clearTimer_def)
next
  case (Some n)
  assume "well_formed s"
  then show ?thesis
    by (rule wf_frame [where Q = "\<lambda>p. fst p \<noteq> n"])
       (simp_all add: clearTimer_def Some conj_commute)
qed

lemma wf_setTimeout: "well_formed s \<Longrightarrow> well_formed (snd (setTimeout tk delay s))"
  by (erule wf_frame_same) (simp_all add: setTimeout_def add_timer_def)

lemma wf_debounce_call: "well_formed s \<Longrightarrow> well_formed (snd (debounce_call cell tk delay s))"
  by (simp add: debounce_call_def split_def Let_def wf_setTimeout wf_clearTimer)

lemma wf_onError: "well_formed s \<Longrightarrow> well_formed (onError i tg s)"
  by (simp add: onError_def Let_def split_def wf_update wf_debounce_call wf_set_errorCount
        wf_unless_silent split: option.split)

lemma wf_fold_onError: "well_formed s \<Longrightarrow> well_formed (fold (\<lambda>i. onError i tg) ns s)"
  by (induction ns arbitrary: s) (simp_all add: wf_onError)

lemma wf_notify: "well_formed s \<Longrightarrow> well_formed (notify quiet cb s)"
  by (erule wf_frame_same) (simp_all add: notify_nf)

lemma wf_showDialog: "well_formed s \<Longrightarrow> well_formed (showDialog quiet accept s)"
  by (simp add: showDialog_def Let_def emit_def unless_silent_nf wf_update)

lemma wf_checkError: "well_formed s \<Longrightarrow> well_formed (checkError i s)"
  by (simp add: checkError_def wf_getETag_start wf_set_errorCount)

lemma wf_timer_fires: "well_formed s \<Longrightarrow> well_formed (timer_fires h accept s)"
  by (simp add: timer_fires_def run_task_def wf_versionUpdateHandler wf_checkError wf_showDialog
        wf_clearTimer split: option.split timer.split task.split)

lemma wf_resume: "well_formed s \<Longrightarrow> well_formed (versionUpdateHandler_resume quiet cb res s)"
  by (cases res)
     (simp_all add: versionUpdateHandler_resume_def wf_unless_silent wf_notify wf_update)

lemma wf_checkError_resume: "well_formed s \<Longrightarrow> well_formed (checkError_resume i res s)"
  by (cases res) (simp_all add: checkError_resume_def wf_set_errorCount wf_notify)

lemma wf_drop_fetch: "well_formed s \<Longrightarrow> well_formed (s\<lparr>fetches := filter P (fetches s)\<rparr>)"
  by (simp add: well_formed_def fresh_ids_def list_all_filter)

lemma wf_fetch_done: "well_formed s \<Longrightarrow> well_formed (fetch_done n r s)"
  by (simp add: fetch_done_def getETag_finish_nf wf_resume wf_checkError_resume wf_drop_fetch
        wf_update Let_def split: option.split kont.split)

lemma wf_setup: "well_formed s \<Longrightarrow> well_formed (setupVersionWatcher opts s)"
proof -
  assume a: "well_formed s"
  consider "\<not> default True (enabled opts)"
    | "default True (enabled opts)" "isInitialized s"
    | "default True (enabled opts)" "\<not> isInitialized s" "ignored (ignorePaths opts) (pathname s)"
    | "default True (enabled opts)" "\<not> isInitialized s" "\<not> ignored (ignorePaths opts) (pathname s)"
    by blast
  then show ?thesis
  proof cases
    case 1
    with a show ?thesis by (simp add: setup_disabled wf_update)
  next
    case 2
    with a show ?thesis by (simp add: setup_when_initialized wf_update)
  next
    case 3
    with a show ?thesis by (auto simp add: setup_bypassed well_formed_def fresh_ids_def)
  next
    case 4
    with a show ?thesis
      by (auto simp add: setup_armed well_formed_def fresh_ids_def list_all_less_Suc hook_ok_def
            default_def list_all_iff split: option.splits)
  qed
qed

lemma wf_destroy: "well_formed s \<Longrightarrow> well_formed (destroyVersionWatcher s)"
  by (auto simp add: destroy_nf well_formed_def fresh_ids_def hook_ok_def default_def
        truthy_num_def list_all_iff split: option.splits)

lemma wf_step: "well_formed s \<Longrightarrow> well_formed (step e s)"
  by (cases e)
     (simp_all add: wf_setup wf_destroy wf_call_history wf_fold_onNavigate wf_fold_onError
        wf_timer_fires wf_fetch_done dispatch_popstate_def dispatch_error_def wf_update)

lemma wf_run: "well_formed s \<Longrightarrow> well_formed (run evs s)"
  unfolding run_def by (induction evs arbitrary: s) (simp_all add: wf_step)

lemma wf_fresh_page: "well_formed (fresh_page org path box msg)"
  by (simp add: well_formed_def fresh_ids_def fresh_page_def hook_ok_def)

lemma reachable_well_formed: "well_formed (run evs (fresh_page org path box msg))"
  by (rule wf_run [OF wf_fresh_page])

lemma destroy_reachable:
  assumes "well_formed s"
  shows "checkTimer (destroyVersionWatcher s) = None"
    and "filter (\<lambda>p. is_interval (snd p)) (timers (destroyVersionWatcher s)) = []"
    and "pushState (destroyVersionWatcher s) = Native"
    and "replaceState (destroyVersionWatcher s) = Native"
  using assms
  by (auto simp add: destroy_nf well_formed_def hook_ok_def default_def truthy_num_def
        list_all_iff filter_empty_conv split: option.splits)

subsection \<open>What the teardown does\<close>

text \<open>
  C2, as the code has it. \<open>destroyVersionWatcher\<close> clears the flag, puts the captured
  \<open>pushState\<close> and \<open>replaceState\<close> back, cancels the interval timer whose handle is in
  \<open>checkTimer\<close> and sets that variable to \<open>null\<close>; it leaves \<open>sysVersion\<close> as it was.
  A following \<open>setupVersionWatcher\<close> on a path that is not ignored arms again: it sets
  the flag, adds its listener and sends a probe. In whatever state a page has reached
  since its load, the teardown leaves \<open>checkTimer\<close> \<open>null\<close>, no interval timer armed
  and the browser's own \<open>pushState\<close> and \<open>replaceState\<close> in place.
\<close>

theorem teardown_effect:
  "isInitialized (destroyVersionWatcher s) = False
   \<and> sysVersion (destroyVersionWatcher s) = sysVersion s
   \<and> (\<forall>f. ORIGINAL_PUSH_STATE s = Some f \<longrightarrow> pushState (destroyVersionWatcher s) = f)
   \<and> (\<forall>f. ORIGINAL_REPLACE_STATE s = Some f \<longrightarrow> replaceState (destroyVersionWatcher s) = f)
   \<and> (\<forall>h. checkTimer s = Some h \<and> h \<noteq> 0 \<longrightarrow>
          checkTimer (destroyVersionWatcher s) = None \<and>
          map_of (timers (destroyVersionWatcher s)) h = None)
   \<and> (default True (enabled opts) \<and> \<not> ignored (ignorePaths opts) (pathname s) \<longrightarrow>
        isInitialized (setupVersionWatcher opts (destroyVersionWatcher s)) \<and>
        popstate_listeners (setupVersionWatcher opts (destroyVersionWatcher s)) =
          popstate_listeners s @ [setup_closure opts s] \<and>
        probes (setupVersionWatcher opts (destroyVersionWatcher s)) = Suc (probes s))
   \<and> checkTimer (destroyVersionWatcher (run evs (fresh_page org path box msg))) = None
   \<and> filter (\<lambda>p. is_interval (snd p))
         (timers (destroyVersionWatcher (run evs (fresh_page org path box msg)))) = []
   \<and> pushState (destroyVersionWatcher (run evs (fresh_page org path box msg))) = Native
   \<and> replaceState (destroyVersionWatcher (run evs (fresh_page org path box msg))) = Native"
proof -
  have a: "\<not> isInitialized (destroyVersionWatcher s)"
    and b: "pathname (destroyVersionWatcher s) = pathname s"
    and c: "origin (destroyVersionWatcher s) = origin s"
    by (simp_all add: destroy_nf)
  have cancelled: "checkTimer (destroyVersionWatcher s) = None \<and>
          map_of (timers (destroyVersionWatcher s)) h = None"
    if "checkTimer s = Some h" "h \<noteq> 0" for h
  proof -
    have "(\<lambda>p. Some (fst p) \<noteq> Some h) = (\<lambda>p. fst p \<noteq> h)" by auto
    with that show ?thesis
      by (simp add: destroy_nf truthy_num_def map_of_filter_out)
  qed
  have rearm: "isInitialized (setupVersionWatcher opts (destroyVersionWatcher s)) \<and>
        popstate_listeners (setupVersionWatcher opts (destroyVersionWatcher s)) =
          popstate_listeners s @ [setup_closure opts s] \<and>
        probes (setupVersionWatcher opts (destroyVersionWatcher s)) = Suc (probes s)"
    if "default True (enabled opts)" "\<not> ignored (ignorePaths opts) (pathname s)"
    using that a b c
    by (simp add: setup_armed setup_closure_def probes_def) (simp add: destroy_nf)
  have general: "isInitialized (destroyVersionWatcher s) = False
   \<and> sysVersion (destroyVersionWatcher s) = sysVersion s
   \<and> (\<forall>f. ORIGINAL_PUSH_STATE s = Some f \<longrightarrow> pushState (destroyVersionWatcher s) = f)
   \<and> (\<forall>f. ORIGINAL_REPLACE_STATE s = Some f \<longrightarrow> replaceState (destroyVersionWatcher s) = f)"
    by (simp add: destroy_nf default_def)
  note reached = destroy_reachable [OF reachable_well_formed, of evs org path box msg]
  from general cancelled rearm reached show ?thesis by blast
qed

text \<open>The theorem at the page \<open>armed\<close>, followed by a set-up with a call-back.\<close>

theorem teardown_effect_witness:
  "ORIGINAL_PUSH_STATE armed = Some Native \<and> ORIGINAL_REPLACE_STATE armed = Some Native \<and>
   checkTimer armed = Some 1 \<and> (1::nat) \<noteq> 0 \<and> map fst (timers armed) = [1] \<and>
   default True (enabled with_callback) \<and>
   \<not> ignored (ignorePaths with_callback) (pathname armed) \<and>
   isInitialized (destroyVersionWatcher armed) = False \<and>
   sysVersion (destroyVersionWatcher armed) = sysVersion armed \<and>
   pushState (destroyVersionWatcher armed) = Native \<and>
   replaceState (destroyVersionWatcher armed) = Native \<and>
   checkTimer (destroyVersionWatcher armed) = None \<and>
   map_of (timers (destroyVersionWatcher armed)) 1 = None \<and>
   isInitialized (setupVersionWatcher with_callback (destroyVersionWatcher armed)) \<and>
   popstate_listeners (setupVersionWatcher with_callback (destroyVersionWatcher armed)) =
     popstate_listeners armed @ [setup_closure with_callback armed] \<and>
   probes (setupVersionWatcher with_callback (destroyVersionWatcher armed)) = Suc (probes armed)"
proof -
  have h1: "default True (enabled with_callback)"
    by (simp add: with_callback_def default_def)
  have h2: "\<not> ignored (ignorePaths with_callback) (pathname armed)"
    by (simp add: with_callback_def ignored_def)
  have h3: "(1::nat) \<noteq> 0" by simp
  from teardown_effect [of armed with_callback] armed_eval h1 h2 h3
  show ?thesis by blast
qed

text \<open>
  C2 as stated fails: the claim has the stored baseline reset by the teardown, but after
  the teardown of a page whose baseline is \<open>v1\<close> the variable \<open>sysVersion\<close> still holds
  \<open>v1\<close>, not its initial \<open>null\<close>.
\<close>

theorem teardown_keeps_baseline:
  "sysVersion page = None \<and> sysVersion armed = Some ''v1'' \<and>
   sysVersion (destroyVersionWatcher armed) = Some ''v1''"
  by (simp add: armed_def example_defs watcher_defs Let_def)

end
